theory Spec2Isabelle
  imports Complex_Main "HOL-Library.AList" "HOL-Library.Monad_Syntax"
begin

section \<open>Values, pipeline variables and SDK configuration objects\<close>

text \<open>
  The notebooks of the workshop build configuration objects of the SageMaker SDK and hand
  them to the service. The embedding keeps the keyword arguments a cell passes: an SDK
  object is a record of its constructor arguments (an argument the cell does not pass is
  \<open>None\<close>, a session object is the name of its class), a Python dictionary is an association list in insertion order, and a
  \<open>for\<close> loop that fills dictionaries is a recursion over the list it iterates, with
  the dictionaries as its state. A subscript \<open>d[k]\<close> on a missing key raises
  \<open>KeyError\<close>; the model returns \<open>None\<close> there.

  Python floats appear only as decimal literals (\<open>0.7\<close>, \<open>0.4\<close>, \<open>0.5\<close>,
  \<open>0.8\<close>); a literal is kept as the rational number it denotes.
\<close>

datatype pyval =
    PyInt int
  | PyStr string
  | PyFloat rat
  | PyBool bool
  | PyDict "(string \<times> pyval) list"

text \<open>\<open>ParameterInteger(name, default_value)\<close> and \<open>ParameterString(name, default_value)\<close>.\<close>

datatype parameter =
    ParameterInteger string int
  | ParameterString string string

fun parameter_name :: "parameter \<Rightarrow> string" where
  "parameter_name (ParameterInteger n d) = n"
| "parameter_name (ParameterString n d) = n"

fun default_value :: "parameter \<Rightarrow> pyval" where
  "default_value (ParameterInteger n d) = PyInt d"
| "default_value (ParameterString n d) = PyStr d"

text \<open>
  What a keyword argument of a pipeline object can hold: a plain Python value fixed when the
  notebook runs, a pipeline parameter, or a property of another step
  (\<open>step.properties.\<dots>\<close>), kept as the step's name and the property path.
\<close>

datatype pipeline_arg =
    Lit pyval
  | Param parameter
  | Prop string string

text \<open>
  What the notebooks read from their session: \<open>sagemaker_session.default_bucket()\<close>,
  \<open>account_id()\<close>, \<open>boto_region_name\<close>, \<open>get_execution_role()\<close>, the value of
  \<open>uuid.uuid4()\<close> in the pipeline notebook, and the S3 URI the SDK fills in for the
  output of an evaluation step that names no destination
  (\<open>eval_steps[t].arguments["ProcessingOutputConfig"]["Outputs"][0]["S3Output"]["S3Uri"]\<close>,
  by the step's name).
\<close>

record env =
  bucket :: string
  account :: string
  region :: string
  role :: string
  uuid4 :: string
  eval_output_uri :: "string \<Rightarrow> string"

definition prefix :: string where
  "prefix = ''cv-sagemaker-immersionday''"

text \<open>\<open>str.lower()\<close> on ASCII letters.\<close>

definition lower_char :: "char \<Rightarrow> char" where
  "lower_char c =
     (case map_of (zip ''ABCDEFGHIJKLMNOPQRSTUVWXYZ'' ''abcdefghijklmnopqrstuvwxyz'') c of
        Some d \<Rightarrow> d
      | None \<Rightarrow> c)"

definition lower :: "string \<Rightarrow> string" where
  "lower s = map lower_char s"

text \<open>A \<open>for\<close> loop over a list whose body may raise: the first \<open>None\<close> ends it.\<close>

fun for_each :: "('s \<Rightarrow> 'a \<Rightarrow> 's option) \<Rightarrow> 'a list \<Rightarrow> 's \<Rightarrow> 's option" where
  "for_each body [] s = Some s"
| "for_each body (x # xs) s =
     (case body s x of None \<Rightarrow> None | Some s' \<Rightarrow> for_each body xs s')"

subsection \<open>SDK objects\<close>

record cache_config_rec =
  enable_caching :: bool
  expire_after :: string

record processor =
  proc_class :: string
  proc_base_job_name :: string
  proc_framework_version :: "string option"
  proc_command :: "string list option"
  proc_image_uri :: "string option"
  proc_role :: string
  proc_instance_type :: pipeline_arg
  proc_instance_count :: pipeline_arg
  proc_sagemaker_session :: "string option"

record processing_input =
  pi_source :: pipeline_arg
  pi_destination :: string

record processing_output =
  po_output_name :: "string option"
  po_source :: string
  po_destination :: "string option"

text \<open>
  The arguments of \<open>processor.run(\<dots>)\<close> and of \<open>ProcessingStep(processor=\<dots>, \<dots>)\<close>:
  \<open>arguments\<close> (\<open>job_arguments\<close> in a step), \<open>inputs\<close>, \<open>outputs\<close> and \<open>code\<close>.
\<close>

record processing_job =
  job_processor :: processor
  job_code :: string
  job_arguments :: "pipeline_arg list option"
  job_inputs :: "processing_input list"
  job_outputs :: "processing_output list"

record property_file =
  pf_name :: string
  pf_output_name :: string
  pf_path :: string

record training_input =
  s3_data :: pipeline_arg
  ti_distribution :: string

record tf_estimator =
  entry_point :: string
  source_dir :: string
  output_path :: "string option"
  instance_type :: pipeline_arg
  instance_count :: pipeline_arg
  est_distribution :: "pyval option"
  est_hyperparameters :: "(string \<times> pyval) list"
  est_metric_definitions :: "(string \<times> string) list list"
  est_role :: string
  use_spot_instances :: "bool option"
  max_run :: "int option"
  max_wait :: "int option"
  est_checkpoint_s3_uri :: "string option"
  framework_version :: string
  py_version :: string
  base_job_name :: string
  script_mode :: bool
  est_tags :: "(string \<times> string) list list option"

record metrics_source =
  ms_s3_uri :: string
  ms_content_type :: string

record register_model =
  rm_name :: string
  rm_estimator :: tf_estimator
  rm_model_data :: pipeline_arg
  content_types :: "string list"
  response_types :: "string list"
  inference_instances :: "string list"
  transform_instances :: "string list"
  rm_model_package_group_name :: string
  model_statistics :: metrics_source

text \<open>\<open>JsonGet(step_name, property_file, json_path)\<close> and the condition built on it.\<close>

datatype json_get = JsonGet string property_file string

datatype condition = ConditionGreaterThanOrEqualTo json_get pyval

text \<open>
  The steps the pipeline notebook constructs, with the keyword arguments each constructor
  takes there. \<open>ConditionStep\<close> has no \<open>cache_config\<close> argument; \<open>RegisterModel\<close> is
  the step collection placed in a condition's branch.
\<close>

datatype step =
    ProcessingStep string processing_job "cache_config_rec option" "property_file list"
  | TrainingStep string tf_estimator "(string \<times> training_input) list" "cache_config_rec option"
  | RegisterModel register_model
  | ConditionStep string "condition list" "step list" "step list"

fun step_name :: "step \<Rightarrow> string" where
  "step_name (ProcessingStep n j c pfs) = n"
| "step_name (TrainingStep n e ins c) = n"
| "step_name (RegisterModel r) = rm_name r"
| "step_name (ConditionStep n cs ifs els) = n"

record pipeline_rec =
  pl_name :: string
  pl_parameters :: "parameter list"
  pl_steps :: "step list"
  pl_sagemaker_session :: string

section \<open>The pipeline notebook\<close>

subsection \<open>Setup and pipeline parameters\<close>

definition model_package_group_name :: string where
  "model_package_group_name = prefix @ ''-model-group''"

definition pipeline_name :: string where
  "pipeline_name = prefix @ ''-pipeline''"

definition s3_raw_data :: "env \<Rightarrow> string" where
  "s3_raw_data e = ''s3://'' @ bucket e @ ''/'' @ prefix @ ''/full/data''"

definition container_name :: string where
  "container_name = ''sagemaker-tf-container''"

definition container_version :: string where
  "container_version = ''2.0''"

definition image_uri :: "env \<Rightarrow> string" where
  "image_uri e =
     account e @ ''.dkr.ecr.'' @ region e @ ''.amazonaws.com/'' @ container_name @ '':''
       @ container_version"

definition processing_instance_count :: parameter where
  "processing_instance_count = ParameterInteger ''ProcessingInstanceCount'' 1"

definition input_data :: "env \<Rightarrow> parameter" where
  "input_data e = ParameterString ''InputDataUrl'' (s3_raw_data e)"

definition input_annotation :: parameter where
  "input_annotation = ParameterString ''AnnotationFileName'' ''classes.txt''"

definition class_selection :: parameter where
  "class_selection = ParameterString ''ClassSelection'' ''13, 17, 35, 36, 47, 68, 73, 87''"

definition processing_instance_type :: string where
  "processing_instance_type = ''ml.m5.xlarge''"

definition training_instance_count :: int where
  "training_instance_count = 1"

definition training_instance_type :: string where
  "training_instance_type = ''ml.c5.4xlarge''"

definition cache_config :: cache_config_rec where
  "cache_config = \<lparr>enable_caching = True, expire_after = ''30d''\<rparr>"

subsection \<open>Preprocess data step\<close>

definition sklearn_processor :: "env \<Rightarrow> processor" where
  "sklearn_processor e =
     \<lparr>proc_class = ''SKLearnProcessor'',
      proc_base_job_name = prefix @ ''-preprocess'',
      proc_framework_version = Some ''0.20.0'',
      proc_command = None,
      proc_image_uri = None,
      proc_role = role e,
      proc_instance_type = Lit (PyStr processing_instance_type),
      proc_instance_count = Param processing_instance_count,
      proc_sagemaker_session = None\<rparr>"

definition output_s3_uri :: "env \<Rightarrow> string" where
  "output_s3_uri e =
     ''s3://'' @ bucket e @ ''/'' @ prefix @ ''/outputs/pipelines/'' @ uuid4 e"

definition step_process :: "env \<Rightarrow> step" where
  "step_process e =
     ProcessingStep ''BirdClassificationPreProcess''
       \<lparr>job_processor = sklearn_processor e,
        job_code = ''preprocess.py'',
        job_arguments =
          Some [Lit (PyStr ''--classes''), Param class_selection,
                Lit (PyStr ''--input-data''), Param input_annotation],
        job_inputs =
          [\<lparr>pi_source = Param (input_data e), pi_destination = ''/opt/ml/processing/input''\<rparr>],
        job_outputs =
          [\<lparr>po_output_name = Some ''train_data'',
            po_source = ''/opt/ml/processing/output/train'',
            po_destination = Some (output_s3_uri e @ ''/train'')\<rparr>,
           \<lparr>po_output_name = Some ''val_data'',
            po_source = ''/opt/ml/processing/output/validation'',
            po_destination = Some (output_s3_uri e @ ''/validation'')\<rparr>,
           \<lparr>po_output_name = Some ''test_data'',
            po_source = ''/opt/ml/processing/output/test'',
            po_destination = Some (output_s3_uri e @ ''/test'')\<rparr>,
           \<lparr>po_output_name = Some ''manifest'',
            po_source = ''/opt/ml/processing/output/manifest'',
            po_destination = Some (output_s3_uri e @ ''/manifest'')\<rparr>]\<rparr>
       (Some cache_config)
       []"

text \<open>
  \<open>step.properties.ProcessingOutputConfig.Outputs[name].S3Output.S3Uri\<close> of a processing
  step and \<open>step.properties.ModelArtifacts.S3ModelArtifacts\<close> of a training step.
\<close>

definition output_S3Uri :: "step \<Rightarrow> string \<Rightarrow> pipeline_arg" where
  "output_S3Uri s name =
     Prop (step_name s) (''ProcessingOutputConfig.Outputs['' @ name @ ''].S3Output.S3Uri'')"

definition S3ModelArtifacts :: "step \<Rightarrow> pipeline_arg" where
  "S3ModelArtifacts s = Prop (step_name s) ''ModelArtifacts.S3ModelArtifacts''"

subsection \<open>Training step\<close>

definition TF_FRAMEWORK_VERSION :: string where
  "TF_FRAMEWORK_VERSION = ''2.4.1''"

definition hyperparameters :: "(string \<times> pyval) list" where
  "hyperparameters =
     [(''initial_epochs'', PyInt 5),
      (''batch_size'', PyInt 8),
      (''fine_tuning_epochs'', PyInt 20),
      (''dropout'', PyFloat (4 / 10)),
      (''data_dir'', PyStr ''/opt/ml/input/data'')]"

text \<open>The regular expressions hold a backslash, character \<open>0x5C\<close>.\<close>

definition metric_regex :: "string \<Rightarrow> string" where
  "metric_regex label = label @ '': ([0-9'' @ [CHR 0x5C] @ ''.]+)''"

definition metric_definitions :: "(string \<times> string) list list" where
  "metric_definitions =
     [[(''Name'', ''loss''), (''Regex'', metric_regex ''loss'')],
      [(''Name'', ''acc''), (''Regex'', metric_regex ''accuracy'')],
      [(''Name'', ''val_loss''), (''Regex'', metric_regex ''val_loss'')],
      [(''Name'', ''val_acc''), (''Regex'', metric_regex ''val_accuracy'')]]"

definition distribution :: pyval where
  "distribution =
     (if training_instance_count > 1
      then PyDict [(''parameter_server'', PyDict [(''enabled'', PyBool True)])]
      else PyDict [(''parameter_server'', PyDict [(''enabled'', PyBool False)])])"

definition DISTRIBUTION_MODE :: string where
  "DISTRIBUTION_MODE =
     (if training_instance_count > 1 then ''ShardedByS3Key'' else ''FullyReplicated'')"

definition train_in :: "env \<Rightarrow> training_input" where
  "train_in e =
     \<lparr>s3_data = output_S3Uri (step_process e) ''train_data'',
      ti_distribution = DISTRIBUTION_MODE\<rparr>"

definition test_in :: "env \<Rightarrow> training_input" where
  "test_in e =
     \<lparr>s3_data = output_S3Uri (step_process e) ''test_data'',
      ti_distribution = DISTRIBUTION_MODE\<rparr>"

definition val_in :: "env \<Rightarrow> training_input" where
  "val_in e =
     \<lparr>s3_data = output_S3Uri (step_process e) ''val_data'',
      ti_distribution = DISTRIBUTION_MODE\<rparr>"

definition inputs :: "env \<Rightarrow> (string \<times> training_input) list" where
  "inputs e = [(''train'', train_in e), (''test'', test_in e), (''validation'', val_in e)]"

definition training_options :: "string list" where
  "training_options = [''Spot'', ''OnDemand'']"

text \<open>The estimator one iteration of the training loop builds for the option \<open>t\<close>.\<close>

definition estimator :: "env \<Rightarrow> string \<Rightarrow> tf_estimator" where
  "estimator e t =
     (let tags = [(''Key'', ''TrainingType''), (''Value'', t)];
          model_path = output_s3_uri e @ ''/models'';
          checkpoint_s3_uri = output_s3_uri e @ ''/outputcheckpoints''
      in if lower t = ''spot''
         then \<lparr>entry_point = ''train-mobilenet.py'',
               source_dir = ''code'',
               output_path = Some model_path,
               instance_type = Lit (PyStr training_instance_type),
               instance_count = Lit (PyInt training_instance_count),
               est_distribution = Some distribution,
               est_hyperparameters = hyperparameters,
               est_metric_definitions = metric_definitions,
               est_role = role e,
               use_spot_instances = Some True,
               max_run = Some (60 * 60 * 10),
               max_wait = Some (60 * 60 * 12),
               est_checkpoint_s3_uri = Some checkpoint_s3_uri,
               framework_version = TF_FRAMEWORK_VERSION,
               py_version = ''py37'',
               base_job_name = prefix,
               script_mode = True,
               est_tags = Some [tags]\<rparr>
         else \<lparr>entry_point = ''train-mobilenet.py'',
               source_dir = ''code'',
               output_path = Some model_path,
               instance_type = Lit (PyStr training_instance_type),
               instance_count = Lit (PyInt training_instance_count),
               est_distribution = Some distribution,
               est_hyperparameters = hyperparameters,
               est_metric_definitions = metric_definitions,
               est_role = role e,
               use_spot_instances = None,
               max_run = None,
               max_wait = None,
               est_checkpoint_s3_uri = None,
               framework_version = TF_FRAMEWORK_VERSION,
               py_version = ''py37'',
               base_job_name = prefix,
               script_mode = True,
               est_tags = Some [tags]\<rparr>)"

definition step_train :: "env \<Rightarrow> string \<Rightarrow> step" where
  "step_train e t =
     TrainingStep (''BirdClassification'' @ t @ ''Train'') (estimator e t) (inputs e)
       (Some cache_config)"

record training_dicts =
  training_steps :: "(string \<times> step) list"
  training_estimators :: "(string \<times> tf_estimator) list"
  models :: "(string \<times> pipeline_arg) list"

definition training_body :: "env \<Rightarrow> training_dicts \<Rightarrow> string \<Rightarrow> training_dicts option" where
  "training_body e d t =
     Some \<lparr>training_steps = AList.update t (step_train e t) (training_steps d),
           training_estimators = AList.update t (estimator e t) (training_estimators d),
           models = AList.update t (S3ModelArtifacts (step_train e t)) (models d)\<rparr>"

definition training_loop :: "env \<Rightarrow> training_dicts option" where
  "training_loop e =
     for_each (training_body e) training_options
       \<lparr>training_steps = [], training_estimators = [], models = []\<rparr>"

subsection \<open>Model evaluation step\<close>

definition eval_processor :: "env \<Rightarrow> processor" where
  "eval_processor e =
     \<lparr>proc_class = ''ScriptProcessor'',
      proc_base_job_name = prefix @ ''-evaluation'',
      proc_framework_version = None,
      proc_command = Some [''python3''],
      proc_image_uri = Some (image_uri e),
      proc_role = role e,
      proc_instance_type = Lit (PyStr processing_instance_type),
      proc_instance_count = Param processing_instance_count,
      proc_sagemaker_session = Some ''PipelineSession''\<rparr>"

definition evaluation_report :: "string \<Rightarrow> property_file" where
  "evaluation_report t =
     \<lparr>pf_name = ''Evaluation'' @ t @ ''Report'',
      pf_output_name = ''evaluation'',
      pf_path = ''evaluation.json''\<rparr>"

text \<open>The evaluation step of one iteration, given the value \<open>m\<close> of \<open>models[t]\<close>.\<close>

definition step_eval :: "env \<Rightarrow> string \<Rightarrow> pipeline_arg \<Rightarrow> step" where
  "step_eval e t m =
     ProcessingStep (''BirdClassification'' @ t @ ''Eval'')
       \<lparr>job_processor = eval_processor e,
        job_code = ''evaluation.py'',
        job_arguments = None,
        job_inputs =
          [\<lparr>pi_source = output_S3Uri (step_process e) ''test_data'',
            pi_destination = ''/opt/ml/processing/input/test''\<rparr>,
           \<lparr>pi_source = output_S3Uri (step_process e) ''manifest'',
            pi_destination = ''/opt/ml/processing/input/manifest''\<rparr>,
           \<lparr>pi_source = m,
            pi_destination = ''/opt/ml/processing/model''\<rparr>],
        job_outputs =
          [\<lparr>po_output_name = Some ''evaluation'',
            po_source = ''/opt/ml/processing/evaluation'',
            po_destination = None\<rparr>]\<rparr>
       (Some cache_config)
       [evaluation_report t]"

record eval_dicts =
  eval_steps :: "(string \<times> step) list"
  eval_reports :: "(string \<times> property_file) list"

definition eval_body :: "env \<Rightarrow> training_dicts \<Rightarrow> eval_dicts \<Rightarrow> string \<Rightarrow> eval_dicts option" where
  "eval_body e tr d t =
     do {
       m \<leftarrow> map_of (models tr) t;
       Some \<lparr>eval_steps = AList.update t (step_eval e t m) (eval_steps d),
             eval_reports = AList.update t (evaluation_report t) (eval_reports d)\<rparr>
     }"

definition eval_loop :: "env \<Rightarrow> training_dicts \<Rightarrow> eval_dicts option" where
  "eval_loop e tr =
     for_each (eval_body e tr) training_options \<lparr>eval_steps = [], eval_reports = []\<rparr>"

subsection \<open>Register model step\<close>

definition step_register ::
  "env \<Rightarrow> string \<Rightarrow> step \<Rightarrow> tf_estimator \<Rightarrow> pipeline_arg \<Rightarrow> step" where
  "step_register e t ev est m =
     RegisterModel
       \<lparr>rm_name = ''Register'' @ t @ ''Model'',
        rm_estimator = est,
        rm_model_data = m,
        content_types = [''application/x-image''],
        response_types = [''application/json''],
        inference_instances = [''ml.t2.medium'', ''ml.m5.large''],
        transform_instances = [''ml.m5.large''],
        rm_model_package_group_name = model_package_group_name,
        model_statistics =
          \<lparr>ms_s3_uri = eval_output_uri e (step_name ev) @ ''/evaluation.json'',
           ms_content_type = ''application/json''\<rparr>\<rparr>"

definition register_body ::
  "env \<Rightarrow> training_dicts \<Rightarrow> eval_dicts \<Rightarrow> (string \<times> step) list \<Rightarrow> string
     \<Rightarrow> (string \<times> step) list option" where
  "register_body e tr ev model_register_steps t =
     do {
       s \<leftarrow> map_of (eval_steps ev) t;
       est \<leftarrow> map_of (training_estimators tr) t;
       m \<leftarrow> map_of (models tr) t;
       Some (AList.update t (step_register e t s est m) model_register_steps)
     }"

definition register_loop ::
  "env \<Rightarrow> training_dicts \<Rightarrow> eval_dicts \<Rightarrow> (string \<times> step) list option" where
  "register_loop e tr ev = for_each (register_body e tr ev) training_options []"

subsection \<open>Accuracy condition step\<close>

definition cond_gte :: "step \<Rightarrow> property_file \<Rightarrow> condition" where
  "cond_gte ev report =
     ConditionGreaterThanOrEqualTo
       (JsonGet (step_name ev) report ''multiclass_classification_metrics.accuracy.value'')
       (PyFloat (7 / 10))"

definition step_cond :: "string \<Rightarrow> step \<Rightarrow> property_file \<Rightarrow> step \<Rightarrow> step" where
  "step_cond t ev report reg =
     ConditionStep (''BirdClassification'' @ t @ ''Condition'') [cond_gte ev report] [reg] []"

definition condition_body ::
  "eval_dicts \<Rightarrow> (string \<times> step) list \<Rightarrow> (string \<times> step) list \<Rightarrow> string
     \<Rightarrow> (string \<times> step) list option" where
  "condition_body ev model_register_steps condition_steps t =
     do {
       s \<leftarrow> map_of (eval_steps ev) t;
       report \<leftarrow> map_of (eval_reports ev) t;
       reg \<leftarrow> map_of model_register_steps t;
       Some (AList.update t (step_cond t s report reg) condition_steps)
     }"

definition condition_loop ::
  "eval_dicts \<Rightarrow> (string \<times> step) list \<Rightarrow> (string \<times> step) list option" where
  "condition_loop ev model_register_steps =
     for_each (condition_body ev model_register_steps) training_options []"

subsection \<open>Pipeline creation\<close>

text \<open>\<open>for k in d: steps.append(d[k])\<close>: the keys of the dictionary in insertion order.\<close>

definition append_values :: "(string \<times> step) list \<Rightarrow> step list \<Rightarrow> step list option" where
  "append_values d steps =
     for_each (\<lambda>acc k. do { v \<leftarrow> map_of d k; Some (acc @ [v]) }) (map fst d) steps"

definition steps :: "env \<Rightarrow> step list option" where
  "steps e =
     do {
       tr \<leftarrow> training_loop e;
       ev \<leftarrow> eval_loop e tr;
       model_register_steps \<leftarrow> register_loop e tr ev;
       condition_steps \<leftarrow> condition_loop ev model_register_steps;
       s1 \<leftarrow> append_values (training_steps tr) [step_process e];
       s2 \<leftarrow> append_values (eval_steps ev) s1;
       append_values condition_steps s2
     }"

definition pipeline :: "env \<Rightarrow> pipeline_rec option" where
  "pipeline e =
     do {
       ss \<leftarrow> steps e;
       Some \<lparr>pl_name = pipeline_name,
             pl_parameters =
               [processing_instance_count, input_data e, input_annotation, class_selection],
             pl_steps = ss,
             pl_sagemaker_session = ''Session''\<rparr>
     }"

section \<open>The standalone notebooks\<close>

text \<open>
  Each standalone notebook sets \<open>bucket\<close> and \<open>prefix\<close> in the same way as the pipeline
  notebook. A name that a notebook reuses with another value carries the notebook's tag:
  \<open>pre\<close> (preprocessing), \<open>trn\<close> (training), \<open>evl\<close> (model evaluation), \<open>dep\<close>
  (deployment).
\<close>

fun lit_string :: "pipeline_arg \<Rightarrow> string option" where
  "lit_string (Lit (PyStr s)) = Some s"
| "lit_string _ = None"

subsection \<open>Preprocessing\<close>

definition output_prefix :: string where
  "output_prefix = prefix @ ''/outputs''"

definition pre_output_s3_uri :: "env \<Rightarrow> string" where
  "pre_output_s3_uri e = ''s3://'' @ bucket e @ ''/'' @ output_prefix"

definition pre_class_selection :: string where
  "pre_class_selection = ''13, 17, 35, 36, 47, 68, 73, 87''"

definition pre_input_annotation :: string where
  "pre_input_annotation = ''classes.txt''"

definition pre_processing_instance_count :: int where
  "pre_processing_instance_count = 1"

definition pre_sklearn_processor :: "env \<Rightarrow> processor" where
  "pre_sklearn_processor e =
     \<lparr>proc_class = ''SKLearnProcessor'',
      proc_base_job_name = prefix @ ''-preprocess'',
      proc_framework_version = Some ''0.20.0'',
      proc_command = None,
      proc_image_uri = None,
      proc_role = role e,
      proc_instance_type = Lit (PyStr processing_instance_type),
      proc_instance_count = Lit (PyInt pre_processing_instance_count),
      proc_sagemaker_session = None\<rparr>"

text \<open>The arguments of \<open>sklearn_processor.run(\<dots>)\<close>.\<close>

definition pre_run :: "env \<Rightarrow> processing_job" where
  "pre_run e =
     \<lparr>job_processor = pre_sklearn_processor e,
      job_code = ''preprocessing.py'',
      job_arguments =
        Some [Lit (PyStr ''--classes''), Lit (PyStr pre_class_selection),
              Lit (PyStr ''--input-data''), Lit (PyStr pre_input_annotation)],
      job_inputs =
        [\<lparr>pi_source = Lit (PyStr (s3_raw_data e)),
          pi_destination = ''/opt/ml/processing/input''\<rparr>],
      job_outputs =
        [\<lparr>po_output_name = None,
          po_source = ''/opt/ml/processing/output/train'',
          po_destination = Some (pre_output_s3_uri e @ ''/train'')\<rparr>,
         \<lparr>po_output_name = None,
          po_source = ''/opt/ml/processing/output/valid'',
          po_destination = Some (pre_output_s3_uri e @ ''/valid'')\<rparr>,
         \<lparr>po_output_name = None,
          po_source = ''/opt/ml/processing/output/test'',
          po_destination = Some (pre_output_s3_uri e @ ''/test'')\<rparr>,
         \<lparr>po_output_name = None,
          po_source = ''/opt/ml/processing/output/manifest'',
          po_destination = Some (pre_output_s3_uri e @ ''/manifest'')\<rparr>]\<rparr>"

text \<open>
  What the notebook writes to S3: the raw dataset, copied recursively to \<open>s3_raw_data\<close>,
  and the destinations of the job's outputs.
\<close>

definition pre_writes :: "env \<Rightarrow> string list" where
  "pre_writes e = s3_raw_data e # List.map_filter po_destination (job_outputs (pre_run e))"

subsection \<open>Training and tuning\<close>

definition processed_data_s3_uri :: "env \<Rightarrow> string" where
  "processed_data_s3_uri e = ''s3://'' @ bucket e @ ''/'' @ prefix @ ''/outputs''"

definition model_output_path :: "env \<Rightarrow> string" where
  "model_output_path e = ''s3://'' @ bucket e @ ''/'' @ prefix @ ''/outputs/model''"

definition trn_DISTRIBUTION_MODE :: string where
  "trn_DISTRIBUTION_MODE = ''FullyReplicated''"

definition shared_hyperparameters :: "(string \<times> pyval) list" where
  "shared_hyperparameters =
     [(''initial_epochs'', PyInt 5),
      (''fine_tuning_epochs'', PyInt 20),
      (''data_dir'', PyStr ''/opt/ml/input/data'')]"

definition trn_estimator :: "env \<Rightarrow> tf_estimator" where
  "trn_estimator e =
     \<lparr>entry_point = ''train-mobilenet.py'',
      source_dir = ''code'',
      output_path = None,
      instance_type = Lit (PyStr training_instance_type),
      instance_count = Lit (PyInt training_instance_count),
      est_distribution = None,
      est_hyperparameters = shared_hyperparameters,
      est_metric_definitions = metric_definitions,
      est_role = role e,
      use_spot_instances = None,
      max_run = None,
      max_wait = None,
      est_checkpoint_s3_uri = None,
      framework_version = TF_FRAMEWORK_VERSION,
      py_version = ''py37'',
      base_job_name = prefix,
      script_mode = True,
      est_tags = None\<rparr>"

datatype hp_range =
    ContinuousParameter rat rat
  | CategoricalParameter "pyval list"
  | IntegerParameter int int

definition hyperparameter_ranges :: "(string \<times> hp_range) list" where
  "hyperparameter_ranges =
     [(''dropout'', ContinuousParameter (5 / 10) (8 / 10)),
      (''batch-size'',
         CategoricalParameter [PyInt 8, PyInt 16, PyInt 32, PyInt 64, PyInt 128, PyInt 256])]"

definition objective_metric_name :: string where
  "objective_metric_name = ''val_acc''"

definition trn_train_in :: "env \<Rightarrow> training_input" where
  "trn_train_in e =
     \<lparr>s3_data = Lit (PyStr (processed_data_s3_uri e @ ''/train'')),
      ti_distribution = trn_DISTRIBUTION_MODE\<rparr>"

definition trn_val_in :: "env \<Rightarrow> training_input" where
  "trn_val_in e =
     \<lparr>s3_data = Lit (PyStr (processed_data_s3_uri e @ ''/valid'')),
      ti_distribution = trn_DISTRIBUTION_MODE\<rparr>"

definition trn_inputs :: "env \<Rightarrow> (string \<times> training_input) list" where
  "trn_inputs e = [(''train'', trn_train_in e), (''validation'', trn_val_in e)]"

record hyperparameter_tuner =
  tuner_estimator :: tf_estimator
  tuner_objective_metric_name :: string
  tuner_hyperparameter_ranges :: "(string \<times> hp_range) list"
  tuner_metric_definitions :: "(string \<times> string) list list"
  objective_type :: string
  max_jobs :: int
  max_parallel_jobs :: int
  base_tuning_job_name :: string

definition tuner :: "env \<Rightarrow> hyperparameter_tuner" where
  "tuner e =
     \<lparr>tuner_estimator = trn_estimator e,
      tuner_objective_metric_name = objective_metric_name,
      tuner_hyperparameter_ranges = hyperparameter_ranges,
      tuner_metric_definitions = metric_definitions,
      objective_type = ''Maximize'',
      max_jobs = 2,
      max_parallel_jobs = 2,
      base_tuning_job_name = ''cv-hpo''\<rparr>"

text \<open>
  \<open>best_model_uri\<close> is what the service reports for the best training job,
  \<open>tuner.best_estimator().latest_training_job.describe()['ModelArtifacts']['S3ModelArtifacts']\<close>;
  the last cell runs \<open>aws s3 cp {best_model_uri} {model_output_path}/model.tar.gz\<close>.
\<close>

record s3_cp =
  cp_source :: string
  cp_destination :: string

definition model_copy :: "env \<Rightarrow> string \<Rightarrow> s3_cp" where
  "model_copy e best_model_uri =
     \<lparr>cp_source = best_model_uri, cp_destination = model_output_path e @ ''/model.tar.gz''\<rparr>"

text \<open>
  What the notebook reads from S3: the channels handed to \<open>tuner.fit\<close> and the source of
  the copy. What it writes: the artifact of the best training job, which the tuning job it
  starts leaves at \<open>best_model_uri\<close>, and the destination of the copy.
\<close>

definition trn_reads :: "env \<Rightarrow> string \<Rightarrow> string list" where
  "trn_reads e best_model_uri =
     List.map_filter (\<lambda>(channel, i). lit_string (s3_data i)) (trn_inputs e)
       @ [cp_source (model_copy e best_model_uri)]"

definition trn_writes :: "env \<Rightarrow> string \<Rightarrow> string list" where
  "trn_writes e best_model_uri =
     [best_model_uri, cp_destination (model_copy e best_model_uri)]"

subsection \<open>Model evaluation\<close>

definition s3_images :: "env \<Rightarrow> string" where
  "s3_images e = ''s3://'' @ bucket e @ ''/'' @ prefix @ ''/outputs/test/''"

definition s3_manifest :: "env \<Rightarrow> string" where
  "s3_manifest e = ''s3://'' @ bucket e @ ''/'' @ prefix @ ''/outputs/manifest''"

definition s3_model :: "env \<Rightarrow> string" where
  "s3_model e = ''s3://'' @ bucket e @ ''/'' @ prefix @ ''/outputs/model/''"

definition ecr_image :: "env \<Rightarrow> string" where
  "ecr_image e =
     account e @ ''.dkr.ecr.'' @ region e @ ''.amazonaws.com/'' @ container_name @ '':''
       @ container_version"

definition s3_evaluation_output :: "env \<Rightarrow> string" where
  "s3_evaluation_output e = ''s3://'' @ bucket e @ ''/'' @ prefix @ ''/outputs/evaluation''"

definition script_processor :: "env \<Rightarrow> processor" where
  "script_processor e =
     \<lparr>proc_class = ''ScriptProcessor'',
      proc_base_job_name = prefix,
      proc_framework_version = None,
      proc_command = Some [''python3''],
      proc_image_uri = Some (ecr_image e),
      proc_role = role e,
      proc_instance_type = Lit (PyStr ''ml.m5.xlarge''),
      proc_instance_count = Lit (PyInt 1),
      proc_sagemaker_session = None\<rparr>"

text \<open>The arguments of \<open>script_processor.run(\<dots>)\<close>.\<close>

definition evl_run :: "env \<Rightarrow> processing_job" where
  "evl_run e =
     \<lparr>job_processor = script_processor e,
      job_code = ''evaluation.py'',
      job_arguments = Some [Lit (PyStr ''--model-file''), Lit (PyStr ''model.tar.gz'')],
      job_inputs =
        [\<lparr>pi_source = Lit (PyStr (s3_images e)),
          pi_destination = ''/opt/ml/processing/input/test''\<rparr>,
         \<lparr>pi_source = Lit (PyStr (s3_manifest e)),
          pi_destination = ''/opt/ml/processing/input/manifest''\<rparr>,
         \<lparr>pi_source = Lit (PyStr (s3_model e)),
          pi_destination = ''/opt/ml/processing/model''\<rparr>],
      job_outputs =
        [\<lparr>po_output_name = Some ''evaluation'',
          po_source = ''/opt/ml/processing/evaluation'',
          po_destination = Some (s3_evaluation_output e)\<rparr>]\<rparr>"

text \<open>
  The review cells read the report with \<open>s3.Object(bucket, eval_matrix_key)\<close> and copy
  \<open>cf_matrix_file\<close> with \<open>aws s3 cp\<close>.
\<close>

definition eval_matrix_key :: string where
  "eval_matrix_key = prefix @ ''/outputs/evaluation/evaluation.json''"

definition s3_object :: "string \<Rightarrow> string \<Rightarrow> string" where
  "s3_object b key = ''s3://'' @ b @ ''/'' @ key"

definition cf_matrix_file :: "env \<Rightarrow> string" where
  "cf_matrix_file e =
     ''s3://'' @ bucket e @ ''/'' @ prefix @ ''/outputs/evaluation/confusion_matrix.png''"

text \<open>
  What the notebook reads from S3: the sources of the job's inputs, the report and the
  confusion matrix. What it writes: the destination of the job's output.
\<close>

definition evl_reads :: "env \<Rightarrow> string list" where
  "evl_reads e =
     List.map_filter (\<lambda>i. lit_string (pi_source i)) (job_inputs (evl_run e))
       @ [s3_object (bucket e) eval_matrix_key, cf_matrix_file e]"

definition evl_writes :: "env \<Rightarrow> string list" where
  "evl_writes e = List.map_filter po_destination (job_outputs (evl_run e))"

subsection \<open>Deployment\<close>

definition ENDPOINT_INSTANCE_TYPE :: string where
  "ENDPOINT_INSTANCE_TYPE = ''ml.c5.4xlarge''"

definition bird_model_path :: "env \<Rightarrow> string" where
  "bird_model_path e = ''s3://'' @ bucket e @ ''/'' @ prefix @ ''/outputs/model/model.tar.gz''"

record serverless_inference_config =
  memory_size_in_mb :: int
  max_concurrency :: int

definition serverless_inf_config :: serverless_inference_config where
  "serverless_inf_config = \<lparr>memory_size_in_mb = 4096, max_concurrency = 5\<rparr>"

record tensorflow_model =
  model_data :: string
  tm_role :: string
  tm_framework_version :: string

text \<open>The keyword arguments of \<open>model.deploy(\<dots>)\<close> and the predictor it returns.\<close>

record deploy_args =
  da_serverless_inference_config :: "serverless_inference_config option"
  initial_instance_count :: "int option"
  da_instance_type :: "string option"

text \<open>
  A predictor: its endpoint name, and the serializer and deserializer it is built with,
  each as its class and its content type.
\<close>

record predictor =
  endpoint_name :: string
  serializer :: "(string \<times> string) option"
  deserializer :: "(string \<times> string) option"

text \<open>
  The notebook says to run either Option 1 or Option 2. Each cell builds the model, calls
  \<open>deploy\<close> (the SDK's call, a parameter here) and binds \<open>predictor\<close> and
  \<open>tf_endpoint_name = str(predictor.endpoint_name)\<close>.
\<close>

datatype deployment_option = Serverless | RealTime

record deployment =
  model :: tensorflow_model
  deploy_call :: deploy_args
  dep_predictor :: predictor
  tf_endpoint_name :: string

definition deploy_cell ::
  "(tensorflow_model \<Rightarrow> deploy_args \<Rightarrow> predictor) \<Rightarrow> env \<Rightarrow> deployment_option \<Rightarrow> deployment" where
  "deploy_cell deploy e opt =
     (let m = \<lparr>model_data = bird_model_path e,
                tm_role = role e,
                tm_framework_version = TF_FRAMEWORK_VERSION\<rparr>;
          args = (case opt of
                    Serverless \<Rightarrow>
                      \<lparr>da_serverless_inference_config = Some serverless_inf_config,
                       initial_instance_count = None,
                       da_instance_type = None\<rparr>
                  | RealTime \<Rightarrow>
                      \<lparr>da_serverless_inference_config = None,
                       initial_instance_count = Some 1,
                       da_instance_type = Some ENDPOINT_INSTANCE_TYPE\<rparr>);
          p = deploy m args
      in \<lparr>model = m, deploy_call = args, dep_predictor = p,
          tf_endpoint_name = endpoint_name p\<rparr>)"

text \<open>
  The first cell of the inference section, run on the state the deployment cell left. It
  binds \<open>tf_endpoint_name\<close> again, to a literal the reader is asked to replace with the
  endpoint name printed before, and builds \<open>predictor\<close> anew from that variable, with an
  \<open>IdentitySerializer\<close> and a \<open>JSONDeserializer\<close>. The prediction loop uses this
  \<open>predictor\<close>.
\<close>

definition predictor_cell :: "deployment \<Rightarrow> deployment" where
  "predictor_cell d =
     (let name = ''<SAGEMAKER DEPLOYED ENDPOINT NAME>'';
          s = (''IdentitySerializer'', ''application/x-image'');
          ds = (''JSONDeserializer'', ''application/json'')
      in d\<lparr>tf_endpoint_name := name,
           dep_predictor := \<lparr>endpoint_name = name, serializer = Some s, deserializer = Some ds\<rparr>\<rparr>)"

definition classes_file :: "env \<Rightarrow> string" where
  "classes_file e = ''s3://'' @ bucket e @ ''/'' @ prefix @ ''/full/data/classes.txt''"

text \<open>
  \<open>cv_utils.get_n_random_images(bucket, prefix=f'{prefix}/outputs/test', n=2)\<close> lists the
  bucket under that key prefix, and \<open>download_images_locally\<close> fetches the keys it
  returned: a read of that prefix.
\<close>

definition sample_images_location :: "env \<Rightarrow> string" where
  "sample_images_location e = ''s3://'' @ bucket e @ ''/'' @ prefix @ ''/outputs/test''"

text \<open>
  What the notebook reads from S3: the model data, the classes file and the sample images.
\<close>

definition dep_reads :: "env \<Rightarrow> string list" where
  "dep_reads e = [bird_model_path e, classes_file e, sample_images_location e]"

section \<open>Reading the configuration\<close>

subsection \<open>Where a registration step stands, and when it runs\<close>

datatype place = TopLevel | IfBranch string | ElseBranch string

text \<open>Every \<open>RegisterModel\<close> of a step, with its arguments and the place it stands in.\<close>

fun places :: "place \<Rightarrow> step \<Rightarrow> (register_model \<times> place) list" where
  "places pl (ProcessingStep n j c pfs) = []"
| "places pl (TrainingStep n est ins c) = []"
| "places pl (RegisterModel r) = [(r, pl)]"
| "places pl (ConditionStep n cs ifs els) =
     concat (map (places (IfBranch n)) ifs) @ concat (map (places (ElseBranch n)) els)"

fun number :: "pyval \<Rightarrow> rat option" where
  "number (PyInt i) = Some (of_int i)"
| "number (PyFloat r) = Some r"
| "number v = None"

text \<open>
  The notebook states the service's rule for a condition step: the \<open>if_steps\<close> run when
  the conditions return true, the \<open>else_steps\<close> otherwise. \<open>rd step file path\<close> is the
  number \<open>JsonGet\<close> reads at \<open>path\<close> in the property file \<open>file\<close> of the step named
  \<open>step\<close>.
\<close>

fun holds :: "(string \<Rightarrow> property_file \<Rightarrow> string \<Rightarrow> rat) \<Rightarrow> condition \<Rightarrow> bool" where
  "holds rd (ConditionGreaterThanOrEqualTo (JsonGet sn pf path) right) =
     (case number right of Some r \<Rightarrow> rd sn pf path \<ge> r | None \<Rightarrow> False)"

fun registered ::
  "(string \<Rightarrow> property_file \<Rightarrow> string \<Rightarrow> rat) \<Rightarrow> step \<Rightarrow> register_model list" where
  "registered rd (ProcessingStep n j c pfs) = []"
| "registered rd (TrainingStep n est ins c) = []"
| "registered rd (RegisterModel r) = [r]"
| "registered rd (ConditionStep n cs ifs els) =
     (if list_all (holds rd) cs
      then concat (map (registered rd) ifs)
      else concat (map (registered rd) els))"

text \<open>A condition step's name, its conditions and the steps in its two branches.\<close>

fun condition_branches :: "step \<Rightarrow> (string \<times> condition list \<times> step list \<times> step list) list" where
  "condition_branches (ConditionStep n cs ifs els) = [(n, cs, ifs, els)]"
| "condition_branches s = []"

subsection \<open>Data dependencies and execution orders\<close>

text \<open>
  What a step takes as data: each input of a processing step by its container path, each
  channel of a training step, the model data of a registration.
\<close>

fun data_inputs :: "step \<Rightarrow> (string \<times> pipeline_arg) list" where
  "data_inputs (ProcessingStep n j c pfs) =
     map (\<lambda>i. (pi_destination i, pi_source i)) (job_inputs j)"
| "data_inputs (TrainingStep n est ins c) = map (\<lambda>(channel, i). (channel, s3_data i)) ins"
| "data_inputs (RegisterModel r) = [(''model_data'', rm_model_data r)]"
| "data_inputs (ConditionStep n cs ifs els) = []"

text \<open>The property files a processing step declares, and those a condition step reads.\<close>

fun property_files :: "step \<Rightarrow> property_file list" where
  "property_files (ProcessingStep n j c pfs) = pfs"
| "property_files s = []"

fun condition_file :: "condition \<Rightarrow> string \<times> property_file" where
  "condition_file (ConditionGreaterThanOrEqualTo (JsonGet sn pf path) right) = (sn, pf)"

fun condition_reads :: "step \<Rightarrow> (string \<times> property_file) list" where
  "condition_reads (ConditionStep n cs ifs els) = map condition_file cs"
| "condition_reads s = []"

fun arg_refs :: "pipeline_arg \<Rightarrow> string list" where
  "arg_refs (Prop s path) = [s]"
| "arg_refs (Lit v) = []"
| "arg_refs (Param p) = []"

fun condition_refs :: "condition \<Rightarrow> string list" where
  "condition_refs (ConditionGreaterThanOrEqualTo (JsonGet sn pf path) right) = [sn]"

text \<open>The steps whose properties or property files a step's arguments refer to.\<close>

fun depends_on :: "step \<Rightarrow> string list" where
  "depends_on (ProcessingStep n j c pfs) =
     arg_refs (proc_instance_type (job_processor j))
       @ arg_refs (proc_instance_count (job_processor j))
       @ concat (map arg_refs (case job_arguments j of None \<Rightarrow> [] | Some as \<Rightarrow> as))
       @ concat (map (\<lambda>i. arg_refs (pi_source i)) (job_inputs j))"
| "depends_on (TrainingStep n est ins c) =
     arg_refs (instance_type est) @ arg_refs (instance_count est)
       @ concat (map (\<lambda>(channel, i). arg_refs (s3_data i)) ins)"
| "depends_on (RegisterModel r) = arg_refs (rm_model_data r)"
| "depends_on (ConditionStep n cs ifs els) = concat (map condition_refs cs)"

text \<open>\<open>a\<close> stands before a later \<open>b\<close> in the list.\<close>

definition precedes :: "string \<Rightarrow> string \<Rightarrow> string list \<Rightarrow> bool" where
  "precedes a b xs = (b \<in> set (drop 1 (dropWhile (\<lambda>x. x \<noteq> a) xs)))"

text \<open>
  An execution order of the steps: every step once, each after the steps it depends on.
\<close>

definition consistent :: "step list \<Rightarrow> string list \<Rightarrow> bool" where
  "consistent ss order =
     (distinct order \<and> set order = set (map step_name ss) \<and>
      list_all (\<lambda>s. list_all (\<lambda>d. precedes d (step_name s) order) (depends_on s)) ss)"

subsection \<open>Kinds, caches and parameters of steps\<close>

fun is_training :: "step \<Rightarrow> bool" where
  "is_training (TrainingStep n est ins c) = True"
| "is_training s = False"

fun step_cache :: "step \<Rightarrow> cache_config_rec option" where
  "step_cache (ProcessingStep n j c pfs) = c"
| "step_cache (TrainingStep n est ins c) = c"
| "step_cache (RegisterModel r) = None"
| "step_cache (ConditionStep n cs ifs els) = None"

fun arg_params :: "pipeline_arg \<Rightarrow> parameter list" where
  "arg_params (Param p) = [p]"
| "arg_params (Lit v) = []"
| "arg_params (Prop s path) = []"

definition processor_params :: "processor \<Rightarrow> parameter list" where
  "processor_params p = arg_params (proc_instance_type p) @ arg_params (proc_instance_count p)"

definition estimator_params :: "tf_estimator \<Rightarrow> parameter list" where
  "estimator_params est = arg_params (instance_type est) @ arg_params (instance_count est)"

text \<open>The pipeline parameters a step's arguments refer to, branches of a condition included.\<close>

fun params_of :: "step \<Rightarrow> parameter list" where
  "params_of (ProcessingStep n j c pfs) =
     processor_params (job_processor j)
       @ concat (map arg_params (case job_arguments j of None \<Rightarrow> [] | Some as \<Rightarrow> as))
       @ concat (map (\<lambda>i. arg_params (pi_source i)) (job_inputs j))"
| "params_of (TrainingStep n est ins c) =
     estimator_params est @ concat (map (\<lambda>(channel, i). arg_params (s3_data i)) ins)"
| "params_of (RegisterModel r) =
     estimator_params (rm_estimator r) @ arg_params (rm_model_data r)"
| "params_of (ConditionStep n cs ifs els) =
     concat (map params_of ifs) @ concat (map params_of els)"

text \<open>The instance type and count a step's processor or estimator is built with.\<close>

fun instance_type_of :: "step \<Rightarrow> pipeline_arg option" where
  "instance_type_of (ProcessingStep n j c pfs) = Some (proc_instance_type (job_processor j))"
| "instance_type_of (TrainingStep n est ins c) = Some (instance_type est)"
| "instance_type_of (RegisterModel r) = Some (instance_type (rm_estimator r))"
| "instance_type_of (ConditionStep n cs ifs els) = None"

fun instance_count_of :: "step \<Rightarrow> pipeline_arg option" where
  "instance_count_of (ProcessingStep n j c pfs) = Some (proc_instance_count (job_processor j))"
| "instance_count_of (TrainingStep n est ins c) = Some (instance_count est)"
| "instance_count_of (RegisterModel r) = Some (instance_count (rm_estimator r))"
| "instance_count_of (ConditionStep n cs ifs els) = None"

text \<open>
  The value an argument takes in one execution started with the overrides \<open>ov\<close>: a
  parameter takes its override, or its default; a step property is known only at run time.
\<close>

fun resolve :: "(string \<rightharpoonup> pyval) \<Rightarrow> pipeline_arg \<Rightarrow> pyval option" where
  "resolve ov (Lit v) = Some v"
| "resolve ov (Param p) =
     (case ov (parameter_name p) of Some v \<Rightarrow> Some v | None \<Rightarrow> Some (default_value p))"
| "resolve ov (Prop s path) = None"

subsection \<open>S3 locations\<close>

definition starts_with :: "string \<Rightarrow> string \<Rightarrow> bool" where
  "starts_with p s = (take (length p) s = p)"

definition strip_slash :: "string \<Rightarrow> string" where
  "strip_slash s = (if s \<noteq> [] \<and> last s = CHR ''/'' then butlast s else s)"

text \<open>
  A location read against a location written: the same up to a trailing slash, a directory
  holding the written object, or an object under the written directory. \<open>outputs_root\<close>
  is the prefix \<open>s3://{bucket}/cv-sagemaker-immersionday/outputs\<close>.
\<close>

definition s3_covers :: "string \<Rightarrow> string \<Rightarrow> bool" where
  "s3_covers r w =
     (strip_slash r = w \<or> starts_with (strip_slash r @ ''/'') w \<or> starts_with (w @ ''/'') r)"

definition outputs_root :: "env \<Rightarrow> string" where
  "outputs_root e = ''s3://'' @ bucket e @ ''/cv-sagemaker-immersionday/outputs''"

subsection \<open>Processing jobs\<close>

text \<open>
  A job exposes the channels \<open>cs\<close> under \<open>uri\<close>: its outputs, in order, are sourced from
  \<open>/opt/ml/processing/output/c\<close> and sent to \<open>uri/c\<close>, for the names \<open>c\<close> of \<open>cs\<close>.
\<close>

definition exposes_channels :: "string \<Rightarrow> string list \<Rightarrow> processing_job \<Rightarrow> bool" where
  "exposes_channels uri cs j =
     (map po_source (job_outputs j) = map (\<lambda>c. ''/opt/ml/processing/output/'' @ c) cs \<and>
      map po_destination (job_outputs j) = map (\<lambda>c. Some (uri @ ''/'' @ c)) cs)"

text \<open>The processing steps of a list of steps, each with the job it configures.\<close>

fun processing_jobs :: "step list \<Rightarrow> (string \<times> processing_job) list" where
  "processing_jobs [] = []"
| "processing_jobs (ProcessingStep n j c pfs # ss) = (n, j) # processing_jobs ss"
| "processing_jobs (s # ss) = processing_jobs ss"

text \<open>A job with its argument list and the destinations of its outputs left out.\<close>

definition without_arguments_and_destination :: "processing_job \<Rightarrow> processing_job" where
  "without_arguments_and_destination j =
     j\<lparr>job_arguments := None,
       job_outputs := map (\<lambda>out. out\<lparr>po_destination := None\<rparr>) (job_outputs j)\<rparr>"

definition example_env :: env where
  "example_env =
     \<lparr>bucket = ''sagemaker-eu-west-1-470317259841'',
      account = ''470317259841'',
      region = ''eu-west-1'',
      role = ''arn:aws:iam::470317259841:role/SageMakerExecutionRole'',
      uuid4 = ''0f8fad5b-d9cb-469f-a165-70867728950e'',
      eval_output_uri = (\<lambda>n. ''s3://sagemaker-eu-west-1-470317259841/'' @ n @ ''/output/evaluation'')\<rparr>"

definition example_best_model_uri :: string where
  "example_best_model_uri =
     ''s3://sagemaker-eu-west-1-470317259841/cv-hpo-220601-1200-001-0a1b2c3d/output/model.tar.gz''"

definition example_deploy :: "tensorflow_model \<Rightarrow> deploy_args \<Rightarrow> predictor" where
  "example_deploy m args =
     \<lparr>endpoint_name = ''tensorflow-inference-2022-06-01-12-00-00-000'',
      serializer = None, deserializer = None\<rparr>"

definition example_order :: "string list" where
  "example_order =
     [''BirdClassificationPreProcess'', ''BirdClassificationOnDemandTrain'',
      ''BirdClassificationSpotTrain'', ''BirdClassificationSpotEval'',
      ''BirdClassificationSpotCondition'', ''BirdClassificationOnDemandEval'',
      ''BirdClassificationOnDemandCondition'']"

section \<open>The pipeline the notebook builds\<close>

text \<open>
  The loops never raise \<open>KeyError\<close>: every dictionary is filled for both training options
  before it is read. The list of steps handed to \<open>Pipeline\<close> is the preprocessing step,
  the two training steps, the two evaluation steps and the two condition steps.
\<close>

lemma training_loop_eq:
  "training_loop e =
     Some \<lparr>training_steps =
             [(''Spot'', step_train e ''Spot''), (''OnDemand'', step_train e ''OnDemand'')],
           training_estimators =
             [(''Spot'', estimator e ''Spot''), (''OnDemand'', estimator e ''OnDemand'')],
           models =
             [(''Spot'', S3ModelArtifacts (step_train e ''Spot'')),
              (''OnDemand'', S3ModelArtifacts (step_train e ''OnDemand''))]\<rparr>"
  by (simp add: training_loop_def training_options_def training_body_def)

lemma steps_eq:
  "steps e =
     Some [step_process e,
           step_train e ''Spot'',
           step_train e ''OnDemand'',
           step_eval e ''Spot'' (S3ModelArtifacts (step_train e ''Spot'')),
           step_eval e ''OnDemand'' (S3ModelArtifacts (step_train e ''OnDemand'')),
           step_cond ''Spot''
             (step_eval e ''Spot'' (S3ModelArtifacts (step_train e ''Spot'')))
             (evaluation_report ''Spot'')
             (step_register e ''Spot''
                (step_eval e ''Spot'' (S3ModelArtifacts (step_train e ''Spot'')))
                (estimator e ''Spot'') (S3ModelArtifacts (step_train e ''Spot''))),
           step_cond ''OnDemand''
             (step_eval e ''OnDemand'' (S3ModelArtifacts (step_train e ''OnDemand'')))
             (evaluation_report ''OnDemand'')
             (step_register e ''OnDemand''
                (step_eval e ''OnDemand'' (S3ModelArtifacts (step_train e ''OnDemand'')))
                (estimator e ''OnDemand'') (S3ModelArtifacts (step_train e ''OnDemand'')))]"
  by (simp add: steps_def training_loop_eq eval_loop_def eval_body_def register_loop_def
      register_body_def condition_loop_def condition_body_def append_values_def
      training_options_def)

lemmas step_defs =
  step_process_def step_train_def step_eval_def step_cond_def step_register_def
  cond_gte_def evaluation_report_def S3ModelArtifacts_def output_S3Uri_def

text \<open>
  C1. In the list of steps of the pipeline, the registration step of each training type
  stands in one place only, the if-branch of that type's condition step. It registers the
  model artifacts of that type's training step, with that step's estimator and the metrics
  of that type's evaluation step. The condition step has a single condition,
  greater-than-or-equal between the value \<open>JsonGet\<close> reads at
  \<open>multiclass_classification_metrics.accuracy.value\<close> in the evaluation report of the
  type's evaluation step (the property file that step declares) and the constant \<open>0.7\<close>,
  and its else-branch is empty. So, for every content \<open>rd\<close> of the reports, the
  registrations that run are that of the Spot model exactly when the Spot accuracy is at
  least \<open>0.7\<close>, and that of the OnDemand model exactly when the OnDemand accuracy is.
\<close>

theorem registration_guarded_by_accuracy:
  "\<exists>ss reg_spot reg_ondemand. steps e = Some ss \<and>
     reg_spot =
       \<lparr>rm_name = ''RegisterSpotModel'',
          rm_estimator = estimator e ''Spot'',
          rm_model_data =
            Prop ''BirdClassificationSpotTrain'' ''ModelArtifacts.S3ModelArtifacts'',
          content_types = [''application/x-image''],
          response_types = [''application/json''],
          inference_instances = [''ml.t2.medium'', ''ml.m5.large''],
          transform_instances = [''ml.m5.large''],
          rm_model_package_group_name = ''cv-sagemaker-immersionday-model-group'',
          model_statistics =
            \<lparr>ms_s3_uri =
               eval_output_uri e ''BirdClassificationSpotEval'' @ ''/evaluation.json'',
             ms_content_type = ''application/json''\<rparr>\<rparr> \<and>
     reg_ondemand =
       \<lparr>rm_name = ''RegisterOnDemandModel'',
          rm_estimator = estimator e ''OnDemand'',
          rm_model_data =
            Prop ''BirdClassificationOnDemandTrain'' ''ModelArtifacts.S3ModelArtifacts'',
          content_types = [''application/x-image''],
          response_types = [''application/json''],
          inference_instances = [''ml.t2.medium'', ''ml.m5.large''],
          transform_instances = [''ml.m5.large''],
          rm_model_package_group_name = ''cv-sagemaker-immersionday-model-group'',
          model_statistics =
            \<lparr>ms_s3_uri =
               eval_output_uri e ''BirdClassificationOnDemandEval'' @ ''/evaluation.json'',
             ms_content_type = ''application/json''\<rparr>\<rparr> \<and>
     filter is_training ss =
       [TrainingStep ''BirdClassificationSpotTrain'' (estimator e ''Spot'') (inputs e)
          (Some cache_config),
        TrainingStep ''BirdClassificationOnDemandTrain'' (estimator e ''OnDemand'') (inputs e)
          (Some cache_config)] \<and>
     concat (map (places TopLevel) ss) =
       [(reg_spot, IfBranch ''BirdClassificationSpotCondition''),
        (reg_ondemand, IfBranch ''BirdClassificationOnDemandCondition'')] \<and>
     concat (map condition_branches ss) =
       [(''BirdClassificationSpotCondition'',
         [ConditionGreaterThanOrEqualTo
            (JsonGet ''BirdClassificationSpotEval'' (evaluation_report ''Spot'')
               ''multiclass_classification_metrics.accuracy.value'')
            (PyFloat (7 / 10))],
         [RegisterModel reg_spot], []),
        (''BirdClassificationOnDemandCondition'',
         [ConditionGreaterThanOrEqualTo
            (JsonGet ''BirdClassificationOnDemandEval'' (evaluation_report ''OnDemand'')
               ''multiclass_classification_metrics.accuracy.value'')
            (PyFloat (7 / 10))],
         [RegisterModel reg_ondemand], [])] \<and>
     map (\<lambda>s. (step_name s, property_files s)) ss =
       [(''BirdClassificationPreProcess'', []),
        (''BirdClassificationSpotTrain'', []),
        (''BirdClassificationOnDemandTrain'', []),
        (''BirdClassificationSpotEval'', [evaluation_report ''Spot'']),
        (''BirdClassificationOnDemandEval'', [evaluation_report ''OnDemand'']),
        (''BirdClassificationSpotCondition'', []),
        (''BirdClassificationOnDemandCondition'', [])] \<and>
     concat (map (registered rd) ss) =
       (if 7 / 10 \<le> rd ''BirdClassificationSpotEval'' (evaluation_report ''Spot'')
                       ''multiclass_classification_metrics.accuracy.value''
        then [reg_spot] else [])
       @ (if 7 / 10 \<le> rd ''BirdClassificationOnDemandEval'' (evaluation_report ''OnDemand'')
                          ''multiclass_classification_metrics.accuracy.value''
          then [reg_ondemand] else []) \<and>
     reg_spot \<noteq> reg_ondemand"
  by (simp add: steps_eq step_defs model_package_group_name_def prefix_def)

text \<open>
  C7. The preprocessing step, both training steps and both evaluation steps are built with
  the one \<open>cache_config\<close>, which enables caching and expires after \<open>30d\<close>; the two
  condition steps carry no cache configuration.
\<close>

theorem cacheable_steps_share_cache_config:
  "\<exists>ss. steps e = Some ss \<and>
     map (\<lambda>s. (step_name s, step_cache s)) ss =
       [(''BirdClassificationPreProcess'', Some cache_config),
        (''BirdClassificationSpotTrain'', Some cache_config),
        (''BirdClassificationOnDemandTrain'', Some cache_config),
        (''BirdClassificationSpotEval'', Some cache_config),
        (''BirdClassificationOnDemandEval'', Some cache_config),
        (''BirdClassificationSpotCondition'', None),
        (''BirdClassificationOnDemandCondition'', None)] \<and>
     cache_config = \<lparr>enable_caching = True, expire_after = ''30d''\<rparr>"
  by (simp add: steps_eq step_defs cache_config_def)

text \<open>
  C2. The data each step takes: both training steps take their train, test and validation
  channels from the outputs \<open>train_data\<close>, \<open>test_data\<close> and \<open>val_data\<close> of the
  preprocessing step; each evaluation step takes its test images and manifest from the
  preprocessing step's outputs and its model from \<open>S3ModelArtifacts\<close> of the training step
  of the same type; each condition step reads the property file its evaluation step
  declares. Hence in every order of the steps that runs each step after the steps it
  depends on, preprocessing comes before each training step, each training step before its
  evaluation step, and each evaluation step before its condition step.
\<close>

theorem dependencies_induce_chain:
  assumes "steps e = Some ss" and "consistent ss order"
  shows "(map (\<lambda>s. (step_name s, data_inputs s)) ss =
       [(''BirdClassificationPreProcess'',
           [(''/opt/ml/processing/input'', Param (input_data e))]),
        (''BirdClassificationSpotTrain'',
           [(''train'', Prop ''BirdClassificationPreProcess''
                          ''ProcessingOutputConfig.Outputs[train_data].S3Output.S3Uri''),
            (''test'', Prop ''BirdClassificationPreProcess''
                          ''ProcessingOutputConfig.Outputs[test_data].S3Output.S3Uri''),
            (''validation'', Prop ''BirdClassificationPreProcess''
                          ''ProcessingOutputConfig.Outputs[val_data].S3Output.S3Uri'')]),
        (''BirdClassificationOnDemandTrain'',
           [(''train'', Prop ''BirdClassificationPreProcess''
                          ''ProcessingOutputConfig.Outputs[train_data].S3Output.S3Uri''),
            (''test'', Prop ''BirdClassificationPreProcess''
                          ''ProcessingOutputConfig.Outputs[test_data].S3Output.S3Uri''),
            (''validation'', Prop ''BirdClassificationPreProcess''
                          ''ProcessingOutputConfig.Outputs[val_data].S3Output.S3Uri'')]),
        (''BirdClassificationSpotEval'',
           [(''/opt/ml/processing/input/test'',
               Prop ''BirdClassificationPreProcess''
                 ''ProcessingOutputConfig.Outputs[test_data].S3Output.S3Uri''),
            (''/opt/ml/processing/input/manifest'',
               Prop ''BirdClassificationPreProcess''
                 ''ProcessingOutputConfig.Outputs[manifest].S3Output.S3Uri''),
            (''/opt/ml/processing/model'',
               Prop ''BirdClassificationSpotTrain'' ''ModelArtifacts.S3ModelArtifacts'')]),
        (''BirdClassificationOnDemandEval'',
           [(''/opt/ml/processing/input/test'',
               Prop ''BirdClassificationPreProcess''
                 ''ProcessingOutputConfig.Outputs[test_data].S3Output.S3Uri''),
            (''/opt/ml/processing/input/manifest'',
               Prop ''BirdClassificationPreProcess''
                 ''ProcessingOutputConfig.Outputs[manifest].S3Output.S3Uri''),
            (''/opt/ml/processing/model'',
               Prop ''BirdClassificationOnDemandTrain'' ''ModelArtifacts.S3ModelArtifacts'')]),
        (''BirdClassificationSpotCondition'', []),
        (''BirdClassificationOnDemandCondition'', [])]) \<and>
     (map (\<lambda>s. (step_name s, property_files s, condition_reads s)) ss =
       [(''BirdClassificationPreProcess'', [], []),
        (''BirdClassificationSpotTrain'', [], []),
        (''BirdClassificationOnDemandTrain'', [], []),
        (''BirdClassificationSpotEval'', [evaluation_report ''Spot''], []),
        (''BirdClassificationOnDemandEval'', [evaluation_report ''OnDemand''], []),
        (''BirdClassificationSpotCondition'', [],
           [(''BirdClassificationSpotEval'', evaluation_report ''Spot'')]),
        (''BirdClassificationOnDemandCondition'', [],
           [(''BirdClassificationOnDemandEval'', evaluation_report ''OnDemand'')])]) \<and>
     (\<forall>t \<in> set training_options.
        precedes ''BirdClassificationPreProcess'' (''BirdClassification'' @ t @ ''Train'')
          order \<and>
        precedes (''BirdClassification'' @ t @ ''Train'') (''BirdClassification'' @ t @ ''Eval'')
          order \<and>
        precedes (''BirdClassification'' @ t @ ''Eval'')
          (''BirdClassification'' @ t @ ''Condition'') order)"
    (is "?inputs \<and> ?files \<and> ?chain")
proof -
  from assms(1) have ss: "ss = the (steps e)" by simp
  have 1: ?inputs
    by (simp add: ss steps_eq step_defs inputs_def train_in_def test_in_def val_in_def)
  have 2: ?files
    by (simp add: ss steps_eq step_defs)
  from assms(2)
  have "list_all (\<lambda>s. list_all (\<lambda>d. precedes d (step_name s) order) (depends_on s)) ss"
    by (simp add: consistent_def)
  then have 3: ?chain
    by (simp add: ss steps_eq step_defs inputs_def train_in_def test_in_def val_in_def
        training_options_def sklearn_processor_def eval_processor_def estimator_def
        lower_def lower_char_def)
  from 1 2 3 show ?thesis by blast
qed

theorem dependencies_induce_chain_witness:
  "steps example_env = Some (the (steps example_env)) \<and>
   consistent (the (steps example_env)) example_order \<and>
   precedes ''BirdClassificationPreProcess'' ''BirdClassificationSpotTrain'' example_order \<and>
   precedes ''BirdClassificationSpotTrain'' ''BirdClassificationSpotEval'' example_order \<and>
   precedes ''BirdClassificationSpotEval'' ''BirdClassificationSpotCondition'' example_order \<and>
   precedes ''BirdClassificationPreProcess'' ''BirdClassificationOnDemandTrain'' example_order \<and>
   precedes ''BirdClassificationOnDemandTrain'' ''BirdClassificationOnDemandEval'' example_order \<and>
   precedes ''BirdClassificationOnDemandEval'' ''BirdClassificationOnDemandCondition'' example_order"
proof -
  have a: "steps example_env = Some (the (steps example_env))"
    by (simp add: steps_eq)
  have b: "consistent (the (steps example_env)) example_order"
    by (auto simp add: consistent_def steps_eq step_defs inputs_def train_in_def test_in_def
        val_in_def example_order_def precedes_def sklearn_processor_def eval_processor_def
        estimator_def lower_def lower_char_def)
  from dependencies_induce_chain [OF a b] a b show ?thesis
    by (simp add: training_options_def)
qed

text \<open>
  C5. The pipeline has exactly two training steps. The estimator tagged
  \<open>TrainingType=Spot\<close> sets \<open>use_spot_instances=True\<close>, \<open>max_run=36000\<close>,
  \<open>max_wait=43200\<close> (not less than \<open>max_run\<close>) and a checkpoint S3 URI; the estimator
  tagged \<open>TrainingType=OnDemand\<close> sets none of the four. Apart from these four and the
  tag, the two estimators are built with the same arguments.
\<close>

theorem two_training_steps_spot_and_on_demand:
  "\<exists>ss. steps e = Some ss \<and>
     filter is_training ss =
       [TrainingStep ''BirdClassificationSpotTrain'' (estimator e ''Spot'') (inputs e)
          (Some cache_config),
        TrainingStep ''BirdClassificationOnDemandTrain'' (estimator e ''OnDemand'') (inputs e)
          (Some cache_config)] \<and>
     est_tags (estimator e ''Spot'') =
       Some [[(''Key'', ''TrainingType''), (''Value'', ''Spot'')]] \<and>
     use_spot_instances (estimator e ''Spot'') = Some True \<and>
     max_run (estimator e ''Spot'') = Some 36000 \<and>
     max_wait (estimator e ''Spot'') = Some 43200 \<and>
     the (max_run (estimator e ''Spot'')) \<le> the (max_wait (estimator e ''Spot'')) \<and>
     est_checkpoint_s3_uri (estimator e ''Spot'') =
       Some (''s3://'' @ bucket e @ ''/cv-sagemaker-immersionday/outputs/pipelines/'' @ uuid4 e
               @ ''/outputcheckpoints'') \<and>
     est_tags (estimator e ''OnDemand'') =
       Some [[(''Key'', ''TrainingType''), (''Value'', ''OnDemand'')]] \<and>
     use_spot_instances (estimator e ''OnDemand'') = None \<and>
     max_run (estimator e ''OnDemand'') = None \<and>
     max_wait (estimator e ''OnDemand'') = None \<and>
     est_checkpoint_s3_uri (estimator e ''OnDemand'') = None \<and>
     estimator e ''OnDemand'' =
       (estimator e ''Spot'')
         \<lparr>use_spot_instances := None, max_run := None, max_wait := None,
          est_checkpoint_s3_uri := None,
          est_tags := Some [[(''Key'', ''TrainingType''), (''Value'', ''OnDemand'')]]\<rparr>"
  by (simp add: steps_eq step_defs estimator_def lower_def lower_char_def output_s3_uri_def
      prefix_def)

text \<open>
  C9. The pipeline is created with four parameters: \<open>ProcessingInstanceCount\<close> (integer,
  default 1), \<open>InputDataUrl\<close> (string, default \<open>s3://{bucket}/{prefix}/full/data\<close>),
  \<open>AnnotationFileName\<close> (string, default \<open>classes.txt\<close>) and \<open>ClassSelection\<close>
  (string, default \<open>13, 17, 35, 36, 47, 68, 73, 87\<close>). The steps refer to these four
  parameters and to no other. Whatever overrides \<open>ov\<close> an execution is started with, the
  training instance type is \<open>ml.c5.4xlarge\<close>, the training instance count is 1 and the
  processing instance type is \<open>ml.m5.xlarge\<close>; the processing instance count is the
  override of \<open>ProcessingInstanceCount\<close>, or 1.
\<close>

theorem pipeline_parameters_and_fixed_settings:
  "\<exists>p. pipeline e = Some p \<and>
     pl_parameters p =
       [ParameterInteger ''ProcessingInstanceCount'' 1,
        ParameterString ''InputDataUrl''
          (''s3://'' @ bucket e @ ''/cv-sagemaker-immersionday/full/data''),
        ParameterString ''AnnotationFileName'' ''classes.txt'',
        ParameterString ''ClassSelection'' ''13, 17, 35, 36, 47, 68, 73, 87''] \<and>
     set (concat (map params_of (pl_steps p))) = set (pl_parameters p) \<and>
     map (\<lambda>s. (step_name s,
                map_option (resolve ov) (instance_type_of s),
                map_option (resolve ov) (instance_count_of s)))
         (pl_steps p) =
       (let count = (case ov ''ProcessingInstanceCount'' of Some v \<Rightarrow> v | None \<Rightarrow> PyInt 1)
        in [(''BirdClassificationPreProcess'',
               Some (Some (PyStr ''ml.m5.xlarge'')), Some (Some count)),
            (''BirdClassificationSpotTrain'',
               Some (Some (PyStr ''ml.c5.4xlarge'')), Some (Some (PyInt 1))),
            (''BirdClassificationOnDemandTrain'',
               Some (Some (PyStr ''ml.c5.4xlarge'')), Some (Some (PyInt 1))),
            (''BirdClassificationSpotEval'',
               Some (Some (PyStr ''ml.m5.xlarge'')), Some (Some count)),
            (''BirdClassificationOnDemandEval'',
               Some (Some (PyStr ''ml.m5.xlarge'')), Some (Some count)),
            (''BirdClassificationSpotCondition'', None, None),
            (''BirdClassificationOnDemandCondition'', None, None)])"
  by (auto simp add: pipeline_def steps_eq step_defs estimator_def lower_def lower_char_def
      processing_instance_count_def input_data_def input_annotation_def class_selection_def
      s3_raw_data_def prefix_def processor_params_def estimator_params_def
      sklearn_processor_def eval_processor_def inputs_def train_in_def test_in_def val_in_def
      processing_instance_type_def training_instance_type_def training_instance_count_def
      Let_def split: option.splits)

section \<open>The standalone notebooks and the pipeline side by side\<close>

text \<open>
  C3, as stated: every preprocessing job exposes the channels train, validation, test and
  manifest. The standalone notebook's job does not: its second output is \<open>valid\<close>, in
  the container path and in the S3 destination.
\<close>

theorem standalone_preprocessing_has_no_validation_channel:
  "\<not> exposes_channels (pre_output_s3_uri example_env)
        [''train'', ''validation'', ''test'', ''manifest''] (pre_run example_env)"
  by (simp add: exposes_channels_def pre_run_def)

text \<open>
  C3, amended. Both preprocessing jobs declare four outputs, sourced from
  \<open>/opt/ml/processing/output/c\<close> and sent to \<open>output_s3_uri/c\<close>: for \<open>c\<close> in train,
  valid, test, manifest in the standalone notebook (under
  \<open>s3://{bucket}/cv-sagemaker-immersionday/outputs\<close>), and for \<open>c\<close> in train, validation,
  test, manifest in the pipeline's preprocessing step (under
  \<open>s3://{bucket}/cv-sagemaker-immersionday/outputs/pipelines/{uuid}\<close>), whose outputs are
  named \<open>train_data\<close>, \<open>val_data\<close>, \<open>test_data\<close> and \<open>manifest\<close>.
\<close>

theorem preprocessing_output_channels:
  "exposes_channels (pre_output_s3_uri e) [''train'', ''valid'', ''test'', ''manifest'']
     (pre_run e) \<and>
   length (job_outputs (pre_run e)) = 4 \<and>
   pre_output_s3_uri e = ''s3://'' @ bucket e @ ''/cv-sagemaker-immersionday/outputs'' \<and>
   (\<exists>ss j. steps e = Some ss \<and>
      map_of (processing_jobs ss) ''BirdClassificationPreProcess'' = Some j \<and>
      exposes_channels (output_s3_uri e) [''train'', ''validation'', ''test'', ''manifest''] j \<and>
      length (job_outputs j) = 4 \<and>
      map po_output_name (job_outputs j) =
        [Some ''train_data'', Some ''val_data'', Some ''test_data'', Some ''manifest'']) \<and>
   output_s3_uri e =
     ''s3://'' @ bucket e @ ''/cv-sagemaker-immersionday/outputs/pipelines/'' @ uuid4 e"
  by (simp add: exposes_channels_def pre_run_def steps_eq step_defs pre_output_s3_uri_def
      output_prefix_def prefix_def output_s3_uri_def)

text \<open>
  C6, as stated: a pipeline evaluation step configures the standalone evaluation job with
  only the argument list and the output destination left out. It does not, for either
  training type.
\<close>

theorem pipeline_evaluation_differs_in_more:
  "map_of (processing_jobs (the (steps example_env))) ''BirdClassificationSpotEval'' \<noteq>
     Some (without_arguments_and_destination (evl_run example_env)) \<and>
   map_of (processing_jobs (the (steps example_env))) ''BirdClassificationOnDemandEval'' \<noteq>
     Some (without_arguments_and_destination (evl_run example_env))"
  by (simp add: steps_eq step_defs without_arguments_and_destination_def evl_run_def
      eval_processor_def script_processor_def prefix_def)

text \<open>
  C6, amended. The standalone evaluation job and each pipeline evaluation step share
  command \<open>python3\<close>, code \<open>evaluation.py\<close>, image, role, instance type, the three
  container paths of the inputs, and one output named \<open>evaluation\<close> sourced from
  \<open>/opt/ml/processing/evaluation\<close>. The standalone run passes
  \<open>["--model-file", "model.tar.gz"]\<close> and an output destination, the pipeline step
  neither. They differ further: the pipeline step's processor has base job name
  \<open>cv-sagemaker-immersionday-evaluation\<close> (standalone: \<open>cv-sagemaker-immersionday\<close>), the
  parameter \<open>ProcessingInstanceCount\<close> as instance count (standalone: 1) and the pipeline
  session, and its inputs come from step properties where the standalone run names S3 URIs.
\<close>

theorem evaluation_job_shape:
  "\<exists>ss spot ondemand. steps e = Some ss \<and>
     [(n, j) \<leftarrow> processing_jobs ss. job_code j = ''evaluation.py''] =
       [(''BirdClassificationSpotEval'', spot), (''BirdClassificationOnDemandEval'', ondemand)] \<and>
     spot = (without_arguments_and_destination (evl_run e))
       \<lparr>job_processor := (script_processor e)
           \<lparr>proc_base_job_name := ''cv-sagemaker-immersionday-evaluation'',
            proc_instance_count := Param (ParameterInteger ''ProcessingInstanceCount'' 1),
            proc_sagemaker_session := Some ''PipelineSession''\<rparr>,
        job_inputs :=
          [\<lparr>pi_source = Prop ''BirdClassificationPreProcess''
                         ''ProcessingOutputConfig.Outputs[test_data].S3Output.S3Uri'',
            pi_destination = ''/opt/ml/processing/input/test''\<rparr>,
           \<lparr>pi_source = Prop ''BirdClassificationPreProcess''
                         ''ProcessingOutputConfig.Outputs[manifest].S3Output.S3Uri'',
            pi_destination = ''/opt/ml/processing/input/manifest''\<rparr>,
           \<lparr>pi_source = Prop ''BirdClassificationSpotTrain''
                         ''ModelArtifacts.S3ModelArtifacts'',
            pi_destination = ''/opt/ml/processing/model''\<rparr>]\<rparr> \<and>
     ondemand = (without_arguments_and_destination (evl_run e))
       \<lparr>job_processor := (script_processor e)
           \<lparr>proc_base_job_name := ''cv-sagemaker-immersionday-evaluation'',
            proc_instance_count := Param (ParameterInteger ''ProcessingInstanceCount'' 1),
            proc_sagemaker_session := Some ''PipelineSession''\<rparr>,
        job_inputs :=
          [\<lparr>pi_source = Prop ''BirdClassificationPreProcess''
                         ''ProcessingOutputConfig.Outputs[test_data].S3Output.S3Uri'',
            pi_destination = ''/opt/ml/processing/input/test''\<rparr>,
           \<lparr>pi_source = Prop ''BirdClassificationPreProcess''
                         ''ProcessingOutputConfig.Outputs[manifest].S3Output.S3Uri'',
            pi_destination = ''/opt/ml/processing/input/manifest''\<rparr>,
           \<lparr>pi_source = Prop ''BirdClassificationOnDemandTrain''
                         ''ModelArtifacts.S3ModelArtifacts'',
            pi_destination = ''/opt/ml/processing/model''\<rparr>]\<rparr> \<and>
     proc_command (job_processor (evl_run e)) = Some [''python3''] \<and>
     proc_instance_type (job_processor (evl_run e)) = Lit (PyStr ''ml.m5.xlarge'') \<and>
     job_code (evl_run e) = ''evaluation.py'' \<and>
     map pi_destination (job_inputs (evl_run e)) =
       [''/opt/ml/processing/input/test'', ''/opt/ml/processing/input/manifest'',
        ''/opt/ml/processing/model''] \<and>
     map (\<lambda>out. (po_output_name out, po_source out)) (job_outputs (evl_run e)) =
       [(Some ''evaluation'', ''/opt/ml/processing/evaluation'')] \<and>
     job_arguments (evl_run e) =
       Some [Lit (PyStr ''--model-file''), Lit (PyStr ''model.tar.gz'')] \<and>
     map po_destination (job_outputs (evl_run e)) =
       [Some (''s3://'' @ bucket e @ ''/cv-sagemaker-immersionday/outputs/evaluation'')] \<and>
     proc_base_job_name (script_processor e) = ''cv-sagemaker-immersionday'' \<and>
     proc_instance_count (script_processor e) = Lit (PyInt 1) \<and>
     proc_sagemaker_session (script_processor e) = None \<and>
     map pi_source (job_inputs (evl_run e)) =
       [Lit (PyStr (''s3://'' @ bucket e @ ''/cv-sagemaker-immersionday/outputs/test/'')),
        Lit (PyStr (''s3://'' @ bucket e @ ''/cv-sagemaker-immersionday/outputs/manifest'')),
        Lit (PyStr (''s3://'' @ bucket e @ ''/cv-sagemaker-immersionday/outputs/model/''))]"
  by (simp add: steps_eq step_defs without_arguments_and_destination_def evl_run_def
      eval_processor_def script_processor_def prefix_def
      processing_instance_count_def image_uri_def ecr_image_def processing_instance_type_def
      s3_images_def s3_manifest_def s3_model_def s3_evaluation_output_def sklearn_processor_def)

text \<open>
  C4, as stated: every S3 location a later standalone notebook reads is a location an
  earlier one wrote, all under \<open>s3://{bucket}/cv-sagemaker-immersionday/outputs\<close>. The
  deployment notebook reads \<open>classes.txt\<close> outside \<open>outputs\<close>. The training notebook
  reads \<open>best_model_uri\<close>, which its own tuning job wrote, at a place the service chose,
  and the evaluation notebook reads the \<open>evaluation.json\<close> its own job wrote: no earlier
  notebook wrote them, not even up to a trailing slash or a directory.
\<close>

theorem later_reads_not_earlier_writes:
  "classes_file example_env \<in> set (dep_reads example_env) \<and>
   \<not> starts_with (outputs_root example_env) (classes_file example_env) \<and>
   example_best_model_uri \<in> set (trn_reads example_env example_best_model_uri) \<and>
   \<not> list_ex (s3_covers example_best_model_uri) (pre_writes example_env) \<and>
   \<not> starts_with (outputs_root example_env) example_best_model_uri \<and>
   s3_object (bucket example_env) eval_matrix_key \<in> set (evl_reads example_env) \<and>
   \<not> list_ex (s3_covers (s3_object (bucket example_env) eval_matrix_key))
       (pre_writes example_env @ trn_writes example_env example_best_model_uri)"
  by (simp add: evl_reads_def evl_run_def s3_images_def s3_model_def s3_manifest_def
      pre_writes_def pre_run_def trn_reads_def trn_inputs_def trn_train_in_def trn_val_in_def
      trn_writes_def model_copy_def List.map_filter_def example_env_def prefix_def
      s3_raw_data_def pre_output_s3_uri_def output_prefix_def model_output_path_def
      dep_reads_def classes_file_def starts_with_def outputs_root_def
      example_best_model_uri_def s3_object_def eval_matrix_key_def cf_matrix_file_def
      s3_covers_def strip_slash_def processed_data_s3_uri_def)

lemma starts_with_append: "starts_with p (p @ s)"
  by (simp add: starts_with_def)

lemma pre_writes_eq:
  "pre_writes e =
     [''s3://'' @ bucket e @ ''/cv-sagemaker-immersionday/full/data'',
      outputs_root e @ ''/train'', outputs_root e @ ''/valid'',
      outputs_root e @ ''/test'', outputs_root e @ ''/manifest'']"
  by (simp add: pre_writes_def pre_run_def List.map_filter_def s3_raw_data_def
      pre_output_s3_uri_def output_prefix_def prefix_def outputs_root_def)

lemma trn_reads_eq:
  "trn_reads e u = [outputs_root e @ ''/train'', outputs_root e @ ''/valid'', u]"
  by (simp add: trn_reads_def trn_inputs_def trn_train_in_def trn_val_in_def model_copy_def
      List.map_filter_def processed_data_s3_uri_def prefix_def outputs_root_def)

lemma trn_writes_eq: "trn_writes e u = [u, outputs_root e @ ''/model/model.tar.gz'']"
  by (simp add: trn_writes_def model_copy_def model_output_path_def prefix_def outputs_root_def)

lemma evl_reads_eq:
  "evl_reads e =
     [outputs_root e @ ''/test/'', outputs_root e @ ''/manifest'', outputs_root e @ ''/model/'',
      outputs_root e @ ''/evaluation/evaluation.json'',
      outputs_root e @ ''/evaluation/confusion_matrix.png'']"
  by (simp add: evl_reads_def evl_run_def List.map_filter_def s3_images_def s3_manifest_def
      s3_model_def s3_object_def eval_matrix_key_def cf_matrix_file_def prefix_def
      outputs_root_def)

lemma evl_writes_eq: "evl_writes e = [outputs_root e @ ''/evaluation'']"
  by (simp add: evl_writes_def evl_run_def List.map_filter_def s3_evaluation_output_def
      prefix_def outputs_root_def)

lemma dep_reads_eq:
  "dep_reads e =
     [outputs_root e @ ''/model/model.tar.gz'',
      ''s3://'' @ bucket e @ ''/cv-sagemaker-immersionday/full/data/classes.txt'',
      outputs_root e @ ''/test'']"
  by (simp add: dep_reads_def bird_model_path_def classes_file_def sample_images_location_def
      prefix_def outputs_root_def)

lemma covers_same: "s3_covers r r"
proof (cases "r \<noteq> [] \<and> last r = CHR ''/''")
  case True
  then have "butlast r @ ''/'' = r"
    using append_butlast_last_id [of r] by simp
  with True show ?thesis
    by (simp add: s3_covers_def strip_slash_def starts_with_def)
next
  case False
  then show ?thesis
    by (auto simp add: s3_covers_def strip_slash_def)
qed

lemma covers_slash: "s3_covers (w @ ''/'') w"
  by (simp add: s3_covers_def strip_slash_def)

lemma covers_dir: "s3_covers (d @ ''/'') (d @ ''/'' @ x)"
  using starts_with_append [of "d @ ''/''" x] by (simp add: s3_covers_def strip_slash_def)

lemma covers_inside: "s3_covers (w @ ''/'' @ x) w"
  using starts_with_append [of "w @ ''/''" x] by (simp add: s3_covers_def)

text \<open>
  C4, amended. With \<open>O = s3://{bucket}/cv-sagemaker-immersionday/outputs\<close>: preprocessing
  writes the raw data to \<open>\<dots>/full/data\<close> and its outputs to \<open>O/train\<close>, \<open>O/valid\<close>,
  \<open>O/test\<close> and \<open>O/manifest\<close>; training reads \<open>O/train\<close>, \<open>O/valid\<close> and the artifact
  \<open>best_model_uri\<close> its tuning job wrote, and copies it to \<open>O/model/model.tar.gz\<close>;
  evaluation reads \<open>O/test/\<close>, \<open>O/manifest\<close> and \<open>O/model/\<close>, writes \<open>O/evaluation\<close>
  and reads \<open>evaluation.json\<close> and \<open>confusion_matrix.png\<close> under it; deployment reads
  \<open>O/model/model.tar.gz\<close>, \<open>\<dots>/full/data/classes.txt\<close> and \<open>O/test\<close>. Every location a
  notebook after preprocessing reads is, up to a trailing slash, a location that an earlier
  notebook or the notebook itself wrote, a directory holding one, or an object under a
  directory one wrote; what training reads apart from \<open>best_model_uri\<close>, and what
  deployment reads, earlier notebooks wrote. All locations read lie under \<open>O\<close>, but
  \<open>best_model_uri\<close> and \<open>classes.txt\<close>.
\<close>

theorem standalone_s3_locations:
  "pre_writes e =
     [''s3://'' @ bucket e @ ''/cv-sagemaker-immersionday/full/data'',
      outputs_root e @ ''/train'', outputs_root e @ ''/valid'',
      outputs_root e @ ''/test'', outputs_root e @ ''/manifest''] \<and>
   trn_reads e u = [outputs_root e @ ''/train'', outputs_root e @ ''/valid'', u] \<and>
   trn_writes e u = [u, outputs_root e @ ''/model/model.tar.gz''] \<and>
   evl_reads e =
     [outputs_root e @ ''/test/'', outputs_root e @ ''/manifest'', outputs_root e @ ''/model/'',
      outputs_root e @ ''/evaluation/evaluation.json'',
      outputs_root e @ ''/evaluation/confusion_matrix.png''] \<and>
   evl_writes e = [outputs_root e @ ''/evaluation''] \<and>
   dep_reads e =
     [outputs_root e @ ''/model/model.tar.gz'',
      ''s3://'' @ bucket e @ ''/cv-sagemaker-immersionday/full/data/classes.txt'',
      outputs_root e @ ''/test''] \<and>
   list_all (\<lambda>r. list_ex (s3_covers r) (pre_writes e @ trn_writes e u)) (trn_reads e u) \<and>
   list_all (\<lambda>r. r = u \<or> list_ex (s3_covers r) (pre_writes e)) (trn_reads e u) \<and>
   list_all (\<lambda>r. list_ex (s3_covers r) (pre_writes e @ trn_writes e u @ evl_writes e))
     (evl_reads e) \<and>
   list_all (\<lambda>r. list_ex (s3_covers r) (pre_writes e @ trn_writes e u)) (dep_reads e) \<and>
   list_all (\<lambda>r. starts_with (outputs_root e) r \<or> r = u \<or> r = classes_file e)
     (trn_reads e u @ evl_reads e @ dep_reads e)"
proof -
  have t: "list_all (\<lambda>r. r = u \<or> list_ex (s3_covers r) (pre_writes e)) (trn_reads e u)"
    unfolding pre_writes_eq trn_reads_eq
    by (simp add: covers_same)
  have t': "list_all (\<lambda>r. list_ex (s3_covers r) (pre_writes e @ trn_writes e u)) (trn_reads e u)"
    unfolding pre_writes_eq trn_reads_eq trn_writes_eq
    by (simp add: covers_same)
  have v: "list_all (\<lambda>r. list_ex (s3_covers r) (pre_writes e @ trn_writes e u @ evl_writes e))
     (evl_reads e)"
    unfolding pre_writes_eq trn_writes_eq evl_reads_eq evl_writes_eq
    using covers_slash [of "outputs_root e @ ''/test''"]
      covers_dir [of "outputs_root e @ ''/model''" "''model.tar.gz''"]
      covers_inside [of "outputs_root e @ ''/evaluation''" "''evaluation.json''"]
      covers_inside [of "outputs_root e @ ''/evaluation''" "''confusion_matrix.png''"]
    by (simp add: covers_same)
  have d: "list_all (\<lambda>r. list_ex (s3_covers r) (pre_writes e @ trn_writes e u)) (dep_reads e)"
    unfolding pre_writes_eq trn_writes_eq dep_reads_eq
    using covers_inside [of "''s3://'' @ bucket e @ ''/cv-sagemaker-immersionday/full/data''"
        "''classes.txt''"]
    by (simp add: covers_same)
  have o: "list_all (\<lambda>r. starts_with (outputs_root e) r \<or> r = u \<or> r = classes_file e)
     (trn_reads e u @ evl_reads e @ dep_reads e)"
    unfolding trn_reads_eq evl_reads_eq dep_reads_eq
    by (simp add: starts_with_append classes_file_def prefix_def)
  from t t' v d o show ?thesis
    by (simp only: pre_writes_eq trn_reads_eq trn_writes_eq evl_reads_eq evl_writes_eq
        dep_reads_eq simp_thms)
qed

text \<open>
  C10. The tuning job maximizes \<open>val_acc\<close> over two hyperparameters, \<open>dropout\<close> as the
  continuous range from 0.5 to 0.8 and \<open>batch-size\<close> as the categories 8, 16, 32, 64, 128
  and 256, with \<open>max_jobs=2\<close> and \<open>max_parallel_jobs=2\<close>; the best model artifact is then
  copied to \<open>s3://{bucket}/cv-sagemaker-immersionday/outputs/model/model.tar.gz\<close>.
\<close>

theorem tuning_job_configuration:
  "tuner_objective_metric_name (tuner e) = ''val_acc'' \<and>
   objective_type (tuner e) = ''Maximize'' \<and>
   tuner_hyperparameter_ranges (tuner e) =
     [(''dropout'', ContinuousParameter (5 / 10) (8 / 10)),
      (''batch-size'',
         CategoricalParameter [PyInt 8, PyInt 16, PyInt 32, PyInt 64, PyInt 128, PyInt 256])] \<and>
   max_jobs (tuner e) = 2 \<and>
   max_parallel_jobs (tuner e) = 2 \<and>
   model_copy e best_model_uri =
     \<lparr>cp_source = best_model_uri,
      cp_destination =
        ''s3://'' @ bucket e @ ''/cv-sagemaker-immersionday/outputs/model/model.tar.gz''\<rparr>"
  by (simp add: tuner_def objective_metric_name_def hyperparameter_ranges_def model_copy_def
      model_output_path_def prefix_def)

text \<open>
  C8, as stated: in both options the endpoint name of the predictor \<open>deploy\<close> returns is
  what inference uses. With the cells run in order it is not: the predictor the prediction
  loop uses has the literal of the inference section as its endpoint name.
\<close>

theorem endpoint_name_not_carried_to_inference:
  "endpoint_name (dep_predictor (predictor_cell (deploy_cell example_deploy example_env Serverless)))
     \<noteq> endpoint_name (dep_predictor (deploy_cell example_deploy example_env Serverless)) \<and>
   endpoint_name (dep_predictor (predictor_cell (deploy_cell example_deploy example_env RealTime)))
     \<noteq> endpoint_name (dep_predictor (deploy_cell example_deploy example_env RealTime)) \<and>
   tf_endpoint_name (predictor_cell (deploy_cell example_deploy example_env Serverless))
     \<noteq> tf_endpoint_name (deploy_cell example_deploy example_env Serverless) \<and>
   tf_endpoint_name (predictor_cell (deploy_cell example_deploy example_env RealTime))
     \<noteq> tf_endpoint_name (deploy_cell example_deploy example_env RealTime)"
  by (simp add: predictor_cell_def deploy_cell_def example_deploy_def Let_def)

text \<open>
  C8, amended. The deployment notebook has two options. Both build the same
  \<open>TensorFlowModel\<close>, from \<open>s3://{bucket}/cv-sagemaker-immersionday/outputs/model/model.tar.gz\<close>
  with framework version 2.4.1. The serverless option deploys with
  \<open>memory_size_in_mb=4096\<close> and \<open>max_concurrency=5\<close>, the real-time option with
  \<open>initial_instance_count=1\<close> on \<open>ml.c5.4xlarge\<close>. In both, \<open>predictor\<close> is what
  \<open>deploy\<close> returns and \<open>tf_endpoint_name\<close> is bound to its endpoint name. The inference
  section then binds \<open>tf_endpoint_name\<close> to the literal
  \<open><SAGEMAKER DEPLOYED ENDPOINT NAME>\<close>, which the reader is to replace, and builds the
  predictor used for inference from that variable, whatever \<open>deploy\<close> returned.
\<close>

theorem two_deployment_options:
  "(UNIV :: deployment_option set) = {Serverless, RealTime} \<and>
   model (deploy_cell deploy e opt) =
     \<lparr>model_data =
        ''s3://'' @ bucket e @ ''/cv-sagemaker-immersionday/outputs/model/model.tar.gz'',
      tm_role = role e, tm_framework_version = ''2.4.1''\<rparr> \<and>
   deploy_call (deploy_cell deploy e Serverless) =
     \<lparr>da_serverless_inference_config =
        Some \<lparr>memory_size_in_mb = 4096, max_concurrency = 5\<rparr>,
      initial_instance_count = None, da_instance_type = None\<rparr> \<and>
   deploy_call (deploy_cell deploy e RealTime) =
     \<lparr>da_serverless_inference_config = None,
      initial_instance_count = Some 1, da_instance_type = Some ''ml.c5.4xlarge''\<rparr> \<and>
   dep_predictor (deploy_cell deploy e opt) =
     deploy (model (deploy_cell deploy e opt)) (deploy_call (deploy_cell deploy e opt)) \<and>
   tf_endpoint_name (deploy_cell deploy e opt) =
     endpoint_name (dep_predictor (deploy_cell deploy e opt)) \<and>
   predictor_cell (deploy_cell deploy e opt) =
     (deploy_cell deploy e opt)
       \<lparr>tf_endpoint_name := ''<SAGEMAKER DEPLOYED ENDPOINT NAME>'',
        dep_predictor :=
          \<lparr>endpoint_name = ''<SAGEMAKER DEPLOYED ENDPOINT NAME>'',
           serializer = Some (''IdentitySerializer'', ''application/x-image''),
           deserializer = Some (''JSONDeserializer'', ''application/json'')\<rparr>\<rparr>"
proof -
  have "(UNIV :: deployment_option set) = {Serverless, RealTime}"
    using deployment_option.exhaust by auto
  then show ?thesis
    by (simp add: deploy_cell_def predictor_cell_def Let_def bird_model_path_def prefix_def
        TF_FRAMEWORK_VERSION_def serverless_inf_config_def ENDPOINT_INSTANCE_TYPE_def)
qed

end
